theory Spec2Isabelle
  imports Main
begin

section \<open>The job seeker dashboard (project/static/jobseekerDashboard.js)\<close>

text \<open>
  The file defines one object, \<^verbatim>\<open>JobseekerDashboard\<close>, whose methods fetch two JSON
  documents and write them into the page. The embedding below follows the file method
  by method. What JavaScript leaves implicit is made explicit:
  \<^item> values are dynamically typed: a parsed JSON document is a \<open>json\<close>, and a value the
    program computes is a \<open>jsval\<close>, which adds \<^verbatim>\<open>undefined\<close> and the built-in objects a
    property read can reach through \<^verbatim>\<open>Object.prototype\<close>;
  \<^item> a thrown exception or a rejected promise is the \<open>Inl\<close> of a sum;
  \<^item> the page, the console, the network and the address bar are a record \<open>world\<close> that
    every method takes and returns;
  \<^item> an \<^verbatim>\<open>async\<close> method is split at its first \<^verbatim>\<open>await\<close> into the part that runs at the
    call and the part that runs when the awaited fetch has settled.

  Strings are \<open>string\<close>: ASCII text is itself and text outside ASCII is carried as the
  bytes of the source file (UTF-8). Numbers are the integers (counts and identifiers),
  printed in decimal as JavaScript prints them below \<open>10\<^sup>2\<^sup>1\<close>; fractions are outside the
  model. The method \<^verbatim>\<open>init\<close> and the listener that calls it only start \<^verbatim>\<open>loadDashboardData\<close>
  and are not modelled.
\<close>

subsection \<open>Values\<close>

datatype json =
    JNull
  | JBool bool
  | JNum int
  | JStr string
  | JArr "json list"
  | JObj "(string \<times> json) list"

datatype jsval =
    Undefined
  | Val json
  | Function string   \<comment> \<open>a native function, by its name\<close>
  | ObjectPrototype   \<comment> \<open>the object \<^verbatim>\<open>Object.prototype\<close>\<close>

abbreviation Str :: "string \<Rightarrow> jsval" where
  "Str s \<equiv> Val (JStr s)"

abbreviation Num :: "int \<Rightarrow> jsval" where
  "Num n \<equiv> Val (JNum n)"

datatype error =
    TypeError     \<comment> \<open>a read on null or undefined, a call of a non-function, an object without a primitive value, a failed fetch\<close>
  | SyntaxError   \<comment> \<open>\<^verbatim>\<open>response.json()\<close> on a body that is not JSON\<close>
  | Foreign       \<comment> \<open>whatever code outside this file throws\<close>

definition andThen :: "error + 'a \<Rightarrow> ('a \<Rightarrow> error + 'b) \<Rightarrow> error + 'b" where
  "andThen m f = (case m of Inl e \<Rightarrow> Inl e | Inr x \<Rightarrow> f x)"

text \<open>\<^verbatim>\<open>ToBoolean\<close>: what \<^verbatim>\<open>!v\<close> and \<^verbatim>\<open>v || w\<close> test.\<close>

fun truthy :: "jsval \<Rightarrow> bool" where
  "truthy Undefined = False"
| "truthy (Val JNull) = False"
| "truthy (Val (JBool b)) = b"
| "truthy (Val (JNum n)) = (n \<noteq> 0)"
| "truthy (Val (JStr s)) = (s \<noteq> [])"
| "truthy (Val (JArr xs)) = True"
| "truthy (Val (JObj kvs)) = True"
| "truthy (Function f) = True"
| "truthy ObjectPrototype = True"

definition orElse :: "jsval \<Rightarrow> jsval \<Rightarrow> jsval" where
  \<comment> \<open>\<^verbatim>\<open>a || b\<close>\<close>
  "orElse a b = (if truthy a then a else b)"

text \<open>\<^verbatim>\<open>ToString\<close>, as a template literal and a \<^verbatim>\<open>textContent\<close> assignment apply it.\<close>

fun digits :: "nat \<Rightarrow> string" where
  "digits n = (if n < 10 then [char_of (48 + n)] else digits (n div 10) @ [char_of (48 + n mod 10)])"

definition numberToString :: "int \<Rightarrow> string" where
  "numberToString n = (if n < 0 then CHR ''-'' # digits (nat (- n)) else digits (nat n))"

text \<open>
  An array prints its elements joined by commas, \<^verbatim>\<open>null\<close> as nothing. A parsed object has
  \<^verbatim>\<open>Object.prototype\<close> as its prototype and prints as \<^verbatim>\<open>[object Object]\<close>, unless the document
  gave it a property \<^verbatim>\<open>toString\<close> of its own: that value is not callable, \<^verbatim>\<open>valueOf\<close> yields
  no primitive, and the conversion throws.
\<close>

fun jsonToString :: "json \<Rightarrow> error + string"
  and join :: "json list \<Rightarrow> error + string" where
  "jsonToString JNull = Inr ''null''"
| "jsonToString (JBool b) = Inr (if b then ''true'' else ''false'')"
| "jsonToString (JNum n) = Inr (numberToString n)"
| "jsonToString (JStr s) = Inr s"
| "jsonToString (JArr xs) = join xs"
| "jsonToString (JObj kvs) =
     (if ''toString'' \<in> fst ` set kvs then Inl TypeError else Inr ''[object Object]'')"
| "join [] = Inr ''''"
| "join (x # xs) =
     andThen (if x = JNull then Inr '''' else jsonToString x) (\<lambda>a.
       if xs = [] then Inr a else andThen (join xs) (\<lambda>b. Inr (a @ '','' @ b)))"

fun toString :: "jsval \<Rightarrow> error + string" where
  "toString Undefined = Inr ''undefined''"
| "toString (Val v) = jsonToString v"
| "toString (Function f) = Inr (''function '' @ f @ ''() { [native code] }'')"
| "toString ObjectPrototype = Inr ''[object Object]''"

text \<open>
  A property read \<^verbatim>\<open>v.k\<close> on a parsed value. On \<^verbatim>\<open>null\<close> it throws; on an object it finds
  the object's own property (the last one, should the document repeat a key) and then
  \<^verbatim>\<open>Object.prototype\<close>. The other cases are written for the names this file reads
  (\<^verbatim>\<open>length\<close>, \<^verbatim>\<open>job_title\<close>, \<^verbatim>\<open>company\<close>, \<^verbatim>\<open>status\<close>, \<^verbatim>\<open>applied_date\<close>, \<^verbatim>\<open>id\<close>, \<^verbatim>\<open>total\<close>,
  \<^verbatim>\<open>pending\<close>, \<^verbatim>\<open>accepted\<close>, \<^verbatim>\<open>rejected\<close>), none of which a built-in prototype defines
  apart from \<^verbatim>\<open>length\<close>.
\<close>

definition objectPrototypeMethods :: "string list" where
  "objectPrototypeMethods =
     [''__defineGetter__'', ''__defineSetter__'', ''__lookupGetter__'', ''__lookupSetter__'',
      ''hasOwnProperty'', ''isPrototypeOf'', ''propertyIsEnumerable'', ''toLocaleString'',
      ''toString'', ''valueOf'']"

definition objectPrototype :: "string \<Rightarrow> jsval" where
  \<comment> \<open>what a plain object inherits under the name \<open>k\<close>\<close>
  "objectPrototype k =
     (if k = ''constructor'' then Function ''Object''
      else if k = ''__proto__'' then ObjectPrototype
      else if k \<in> set objectPrototypeMethods then Function k
      else Undefined)"

definition getOwnOrInherited :: "(string \<times> jsval) list \<Rightarrow> string \<Rightarrow> jsval" where
  \<comment> \<open>\<^verbatim>\<open>o[k]\<close> on a plain object with the own properties \<open>props\<close>\<close>
  "getOwnOrInherited props k =
     (case map_of (rev props) k of Some v \<Rightarrow> v | None \<Rightarrow> objectPrototype k)"

fun get :: "json \<Rightarrow> string \<Rightarrow> error + jsval" where
  "get JNull k = Inl TypeError"
| "get (JObj kvs) k = Inr (getOwnOrInherited (map (\<lambda>(n, v). (n, Val v)) kvs) k)"
| "get (JArr xs) k = Inr (if k = ''length'' then Num (int (length xs)) else Undefined)"
| "get (JStr s) k = Inr (if k = ''length'' then Num (int (length s)) else Undefined)"
| "get (JNum n) k = Inr Undefined"
| "get (JBool b) k = Inr Undefined"

subsection \<open>getStatusBadge\<close>

text \<open>
  \<^verbatim>\<open>String.prototype.toLowerCase\<close>: the letters A to Z become a to z. The bytes of a
  character outside ASCII stay as they are; JavaScript may change such a character, but
  never into a letter that occurs in a key of \<^verbatim>\<open>badges\<close> or in the name of an inherited
  property (the Kelvin sign becomes k, which none of them contains), so the lookup below
  finds what the program finds.
\<close>

definition lowerChar :: "char \<Rightarrow> char" where
  "lowerChar c =
     (if (65::nat) \<le> of_char c \<and> of_char c \<le> (90::nat) then char_of (of_char c + (32::nat)) else c)"

definition toLowerCase :: "string \<Rightarrow> string" where
  "toLowerCase s = map lowerChar s"

definition badges :: "(string \<times> jsval) list" where
  \<open>badges =
     [(''pending'', Str ''<span class="badge badge-warning">Pending</span>''),
      (''accepted'', Str ''<span class="badge badge-success">Accepted</span>''),
      (''rejected'', Str ''<span class="badge badge-error">Rejected</span>''),
      (''interviewing'', Str ''<span class="badge badge-info">Interview</span>'')]\<close>

definition unknownBadge :: string where
  \<open>unknownBadge = ''<span class="badge badge-neutral">Unknown</span>''\<close>

text \<open>
  \<^verbatim>\<open>status.toLowerCase()\<close> is a method call on the argument: only a string has the method,
  every other value throws a TypeError. \<^verbatim>\<open>badges[statusLower]\<close> is a property read on an
  object literal, so it sees what the literal inherits as well as the four keys.
\<close>

definition getStatusBadge :: "jsval \<Rightarrow> error + jsval" where
  "getStatusBadge status =
     (case status of
        Val (JStr s) \<Rightarrow>
          (let statusLower = toLowerCase s
           in Inr (orElse (getOwnOrInherited badges statusLower) (Str unknownBadge)))
      | _ \<Rightarrow> Inl TypeError)"

subsection \<open>The page, the console and the network\<close>

text \<open>
  The page is the list of its elements in document order, each with its \<^verbatim>\<open>id\<close> attribute,
  its class list and what was last assigned to it (\<^verbatim>\<open>innerHTML\<close> or \<^verbatim>\<open>textContent\<close>).
  Elements are flat: none is nested in the container or in a counter. A reference to an
  element, as \<^verbatim>\<open>getElementById\<close> returns it, is its position in the list; the program
  writes only through references a lookup returned, which are in range (a list update at
  any other position would change nothing). \<open>trace\<close> records every effect in the order
  the program performs it.
\<close>

datatype content = Html string | Text string

record element =
  elemId :: "string option"
  classList :: "string list"
  content :: content

datatype event =
    Fetch string
  | ConsoleError string error
  | ConsoleWarn string
  | ClassAdd nat string
  | ClassRemove nat string
  | SetInnerHTML nat string
  | SetTextContent nat string
  | Navigate string

record world =
  document :: "element list"
  trace :: "event list"
  href :: string   \<comment> \<open>\<^verbatim>\<open>window.location.href\<close>\<close>

fun findIndex :: "('a \<Rightarrow> bool) \<Rightarrow> 'a list \<Rightarrow> nat option" where
  "findIndex P [] = None"
| "findIndex P (x # xs) = (if P x then Some 0 else map_option Suc (findIndex P xs))"

definition getElementById :: "world \<Rightarrow> string \<Rightarrow> nat option" where
  "getElementById w i = findIndex (\<lambda>e. elemId e = Some i) (document w)"

definition querySelector :: "world \<Rightarrow> string \<Rightarrow> nat option" where
  \<comment> \<open>\<^verbatim>\<open>document.querySelector('.c')\<close>: the first element of class \<open>c\<close>\<close>
  "querySelector w c = findIndex (\<lambda>e. c \<in> set (classList e)) (document w)"

definition emit :: "event \<Rightarrow> world \<Rightarrow> world" where
  "emit e w = w\<lparr>trace := trace w @ [e]\<rparr>"

definition setInnerHTML :: "nat \<Rightarrow> string \<Rightarrow> world \<Rightarrow> world" where
  "setInnerHTML el h w =
     emit (SetInnerHTML el h)
       (w\<lparr>document := (document w)[el := (document w ! el)\<lparr>content := Html h\<rparr>]\<rparr>)"

definition setTextContent :: "nat \<Rightarrow> string \<Rightarrow> world \<Rightarrow> world" where
  "setTextContent el t w =
     emit (SetTextContent el t)
       (w\<lparr>document := (document w)[el := (document w ! el)\<lparr>content := Text t\<rparr>]\<rparr>)"

definition classListAdd :: "nat \<Rightarrow> string \<Rightarrow> world \<Rightarrow> world" where
  "classListAdd el c w =
     (let e = document w ! el;
          cs = (if c \<in> set (classList e) then classList e else classList e @ [c])
      in emit (ClassAdd el c) (w\<lparr>document := (document w)[el := e\<lparr>classList := cs\<rparr>]\<rparr>))"

definition classListRemove :: "nat \<Rightarrow> string \<Rightarrow> world \<Rightarrow> world" where
  "classListRemove el c w =
     (let e = document w ! el
      in emit (ClassRemove el c)
           (w\<lparr>document := (document w)[el := e\<lparr>classList := removeAll c (classList e)\<rparr>]\<rparr>))"

text \<open>
  What lies outside the program: the answer of the server to each request (\<^verbatim>\<open>fetch\<close>
  rejects with a TypeError when the request fails, \<^verbatim>\<open>response.json()\<close> rejects with a
  SyntaxError when the body is not JSON), and the runtime's clock settings: its parser for
  date strings outside the ISO date-only form, and the offset of local time from UTC, in
  minutes, at a given instant.
\<close>

datatype response = Failed | Malformed | Body json

record env =
  serve :: "string \<Rightarrow> response"
  parseOther :: "string \<Rightarrow> int option"
  utcOffset :: "int \<Rightarrow> int"

definition fetch :: "string \<Rightarrow> world \<Rightarrow> world" where
  \<comment> \<open>the request goes out\<close>
  "fetch url w = emit (Fetch url) w"

definition fetchedJson :: "env \<Rightarrow> string \<Rightarrow> error + json" where
  \<comment> \<open>\<^verbatim>\<open>await fetch(url)\<close> followed by \<^verbatim>\<open>await response.json()\<close>\<close>
  "fetchedJson env url =
     (case serve env url of
        Failed \<Rightarrow> Inl TypeError
      | Malformed \<Rightarrow> Inl SyntaxError
      | Body v \<Rightarrow> Inr v)"

text \<open>
  How a call ends. For an \<^verbatim>\<open>async\<close> method \<open>Normal\<close> is a fulfilled promise and \<open>Abrupt e\<close> a
  promise rejected with \<open>e\<close>.
\<close>

datatype completion = Normal | Abrupt error

subsection \<open>formatDate\<close>

text \<open>
  \<^verbatim>\<open>new Date(v)\<close> takes the primitive value of \<open>v\<close>. A string goes through \<^verbatim>\<open>Date.parse\<close>,
  which reads the form \<^verbatim>\<open>YYYY-MM-DD\<close> as midnight UTC of that day; other strings are left to
  the runtime. Anything else is converted to a number of milliseconds since 1970.
  \<^verbatim>\<open>toLocaleDateString('en-US', {month: 'short', day: 'numeric', year: 'numeric'})\<close> prints
  the calendar day of that instant in local time, as in \<^verbatim>\<open>Jan 5, 2024\<close>, and
  \<^verbatim>\<open>Invalid Date\<close> when there is no instant. Days and dates are converted with the usual
  civil-calendar arithmetic (proleptic Gregorian, years from 1 on).
\<close>

definition daysFromCivil :: "int \<Rightarrow> int \<Rightarrow> int \<Rightarrow> int" where
  "daysFromCivil y m d =
     (let y' = (if m \<le> 2 then y - 1 else y);
          era = y' div 400;
          yoe = y' - era * 400;
          doy = (153 * (if m > 2 then m - 3 else m + 9) + 2) div 5 + d - 1;
          doe = yoe * 365 + yoe div 4 - yoe div 100 + doy
      in era * 146097 + doe - 719468)"

definition civilFromDays :: "int \<Rightarrow> int \<times> int \<times> int" where
  "civilFromDays z0 =
     (let z = z0 + 719468;
          era = z div 146097;
          doe = z - era * 146097;
          yoe = (doe - doe div 1460 + doe div 36524 - doe div 146096) div 365;
          doy = doe - (365 * yoe + yoe div 4 - yoe div 100);
          mp = (5 * doy + 2) div 153;
          d = doy - (153 * mp + 2) div 5 + 1;
          m = (if mp < 10 then mp + 3 else mp - 9);
          y = yoe + era * 400
      in (if m \<le> 2 then y + 1 else y, m, d))"

definition daysInMonth :: "int \<Rightarrow> int \<Rightarrow> int" where
  "daysInMonth y m =
     (if m = 2 then (if y mod 4 = 0 \<and> (y mod 100 \<noteq> 0 \<or> y mod 400 = 0) then 29 else 28)
      else if m \<in> {4, 6, 9, 11} then 30 else 31)"

definition isDigit :: "char \<Rightarrow> bool" where
  "isDigit c = ((48::nat) \<le> of_char c \<and> of_char c \<le> (57::nat))"

definition number :: "string \<Rightarrow> int" where
  \<comment> \<open>the value of a string of decimal digits\<close>
  "number s = foldl (\<lambda>n c. 10 * n + (int (of_char c) - 48)) 0 s"

definition parseDateOnly :: "string \<Rightarrow> int option" where
  "parseDateOnly s =
     (if length s = 10 \<and> s ! 4 = CHR ''-'' \<and> s ! 7 = CHR ''-''
         \<and> list_all isDigit (take 4 s) \<and> list_all isDigit (take 2 (drop 5 s))
         \<and> list_all isDigit (drop 8 s)
      then (let y = number (take 4 s); m = number (take 2 (drop 5 s)); d = number (drop 8 s)
            in if 1 \<le> m \<and> m \<le> 12 \<and> 1 \<le> d \<and> d \<le> daysInMonth y m
               then Some (daysFromCivil y m d * 86400000) else None)
      else None)"

definition dateParse :: "env \<Rightarrow> string \<Rightarrow> int option" where
  "dateParse env s = (case parseDateOnly s of Some t \<Rightarrow> Some t | None \<Rightarrow> parseOther env s)"

definition timeClip :: "int \<Rightarrow> int option" where
  "timeClip t = (if \<bar>t\<bar> \<le> 8640000000000000 then Some t else None)"

definition toPrimitive :: "jsval \<Rightarrow> error + jsval" where
  "toPrimitive v =
     (case v of
        Val (JArr xs) \<Rightarrow> andThen (toString v) (\<lambda>s. Inr (Str s))
      | Val (JObj kvs) \<Rightarrow> andThen (toString v) (\<lambda>s. Inr (Str s))
      | Function f \<Rightarrow> andThen (toString v) (\<lambda>s. Inr (Str s))
      | ObjectPrototype \<Rightarrow> andThen (toString v) (\<lambda>s. Inr (Str s))
      | _ \<Rightarrow> Inr v)"

fun timeValue :: "env \<Rightarrow> jsval \<Rightarrow> int option" where
  \<comment> \<open>the instant of \<^verbatim>\<open>new Date(p)\<close> for a primitive \<open>p\<close>; \<open>None\<close> is \<^verbatim>\<open>NaN\<close>\<close>
  "timeValue env (Val (JStr s)) = Option.bind (dateParse env s) timeClip"
| "timeValue env (Val (JNum n)) = timeClip n"
| "timeValue env (Val (JBool b)) = Some (if b then 1 else 0)"
| "timeValue env (Val JNull) = Some 0"
| "timeValue env _ = None"

definition monthShort :: "int \<Rightarrow> string" where
  "monthShort m =
     [''Jan'', ''Feb'', ''Mar'', ''Apr'', ''May'', ''Jun'',
      ''Jul'', ''Aug'', ''Sep'', ''Oct'', ''Nov'', ''Dec''] ! nat (m - 1)"

definition toLocaleDateString :: "env \<Rightarrow> int option \<Rightarrow> string" where
  "toLocaleDateString env tv =
     (case tv of
        None \<Rightarrow> ''Invalid Date''
      | Some t \<Rightarrow>
          (case civilFromDays ((t + utcOffset env t * 60000) div 86400000) of
             (y, m, d) \<Rightarrow> monthShort m @ '' '' @ numberToString d @ '', '' @ numberToString y))"

definition formatDate :: "env \<Rightarrow> jsval \<Rightarrow> error + string" where
  "formatDate env dateString =
     andThen (toPrimitive dateString) (\<lambda>p. Inr (toLocaleDateString env (timeValue env p)))"

subsection \<open>renderEmptyState, setLoading, viewApplication\<close>

definition emptyStateTemplate :: "string \<Rightarrow> string \<Rightarrow> string \<Rightarrow> string" where
  \<open>emptyStateTemplate icon title text' =
     ''\<newline>      <tr>\<newline>        <td colspan="5" class="empty-state-cell">\<newline>          <div class="empty-state">\<newline>            <div class="empty-state-icon">''
     @ icon @ ''</div>\<newline>            <div class="empty-state-title">''
     @ title @ ''</div>\<newline>            <div class="empty-state-text">''
     @ text' @ ''</div>\<newline>          </div>\<newline>        </td>\<newline>      </tr>\<newline>    ''\<close>

definition renderEmptyState :: "nat \<Rightarrow> string \<Rightarrow> string \<Rightarrow> string \<Rightarrow> world \<Rightarrow> world" where
  "renderEmptyState container icon title text' w =
     setInnerHTML container (emptyStateTemplate icon title text') w"

definition setLoading :: "bool \<Rightarrow> world \<Rightarrow> world" where
  "setLoading isLoading w =
     (case querySelector w ''dashboard-main'' of
        None \<Rightarrow> w
      | Some main \<Rightarrow>
          if isLoading then classListAdd main ''loading-fade'' w
          else classListRemove main ''loading-fade'' w)"

definition viewApplication :: "jsval \<Rightarrow> world \<Rightarrow> completion \<times> world" where
  "viewApplication ident w =
     (case toString ident of
        Inl e \<Rightarrow> (Abrupt e, w)
      | Inr s \<Rightarrow> (Normal, emit (Navigate (''/applications/'' @ s)) (w\<lparr>href := ''/applications/'' @ s\<rparr>)))"

subsection \<open>loadAppliedJobs\<close>

text \<open>
  One table row: the template literal of the \<^verbatim>\<open>map\<close> callback. Its five substitutions are
  evaluated and converted to text in order; the first that throws ends the callback.
\<close>

definition rowTemplate :: "string \<Rightarrow> string \<Rightarrow> string \<Rightarrow> string \<Rightarrow> string \<Rightarrow> string" where
  \<open>rowTemplate job_title company badge date ident =
     ''\<newline>        <tr>\<newline>          <td><strong class="text-on-light">''
     @ job_title @ ''</strong></td>\<newline>          <td class="text-on-light-secondary">''
     @ company @ ''</td>\<newline>          <td>''
     @ badge @ ''</td>\<newline>          <td class="text-on-light-secondary">''
     @ date @ ''</td>\<newline>          <td>\<newline>            <button class="btn btn-sm btn-secondary" onclick="JobseekerDashboard.viewApplication(''
     @ ident @ '')">\<newline>              View\<newline>            </button>\<newline>          </td>\<newline>        </tr>\<newline>      ''\<close>

definition renderRow :: "env \<Rightarrow> json \<Rightarrow> error + string" where
  "renderRow env app =
     andThen (get app ''job_title'') (\<lambda>job_title. andThen (toString job_title) (\<lambda>s1.
     andThen (get app ''company'') (\<lambda>company. andThen (toString company) (\<lambda>s2.
     andThen (get app ''status'') (\<lambda>status. andThen (getStatusBadge status) (\<lambda>badge.
     andThen (toString badge) (\<lambda>s3.
     andThen (get app ''applied_date'') (\<lambda>applied_date. andThen (formatDate env applied_date) (\<lambda>s4.
     andThen (get app ''id'') (\<lambda>ident. andThen (toString ident) (\<lambda>s5.
     Inr (rowTemplate s1 s2 s3 s4 s5))))))))))))"

fun mapRows :: "(json \<Rightarrow> error + string) \<Rightarrow> json list \<Rightarrow> error + string list" where
  \<comment> \<open>\<^verbatim>\<open>applications.map(callback)\<close>: the first callback that throws ends the whole call\<close>
  "mapRows f [] = Inr []"
| "mapRows f (x # xs) = andThen (f x) (\<lambda>r. andThen (mapRows f xs) (\<lambda>rs. Inr (r # rs)))"

definition applicationsUrl :: string where
  "applicationsUrl = ''/api/jobseeker/applications''"

definition errorRow :: string where
  \<open>errorRow = ''<tr><td colspan="5" class="error-text">Failed to load applications.</td></tr>''\<close>

definition clipboard :: string where
  \<comment> \<open>the icon of the empty state, U+1F4CB, as the four bytes the source file holds\<close>
  "clipboard = [CHR 0xF0, CHR 0x9F, CHR 0x93, CHR 0x8B]"

text \<open>Up to the first \<^verbatim>\<open>await\<close>: without the container the method returns, otherwise the request goes out.\<close>

definition loadAppliedJobs_begin :: "world \<Rightarrow> nat option \<times> world" where
  "loadAppliedJobs_begin w =
     (case getElementById w ''appliedJobsTable'' of
        None \<Rightarrow> (None, w)
      | Some container \<Rightarrow> (Some container, fetch applicationsUrl w))"

text \<open>
  The \<^verbatim>\<open>try\<close> block once the fetch has settled. Only an array has \<^verbatim>\<open>map\<close>: on any other
  value that passed the emptiness test the call throws.
\<close>

definition loadAppliedJobs_try :: "env \<Rightarrow> nat \<Rightarrow> world \<Rightarrow> error + world" where
  "loadAppliedJobs_try env container w =
     andThen (fetchedJson env applicationsUrl) (\<lambda>applications.
       if \<not> truthy (Val applications) then
         Inr (renderEmptyState container clipboard ''No applications yet'' ''Start browsing jobs to apply!'' w)
       else andThen (get applications ''length'') (\<lambda>len.
         if len = Num 0 then
           Inr (renderEmptyState container clipboard ''No applications yet'' ''Start browsing jobs to apply!'' w)
         else (case applications of
                 JArr apps \<Rightarrow>
                   andThen (mapRows (renderRow env) apps) (\<lambda>rows.
                     Inr (setInnerHTML container (concat rows) w))
               | _ \<Rightarrow> Inl TypeError)))"

definition loadAppliedJobs_resume :: "env \<Rightarrow> nat \<Rightarrow> world \<Rightarrow> completion \<times> world" where
  "loadAppliedJobs_resume env container w =
     (case loadAppliedJobs_try env container w of
        Inr w' \<Rightarrow> (Normal, w')
      | Inl e \<Rightarrow> (Normal, setInnerHTML container errorRow w))"

definition loadAppliedJobs :: "env \<Rightarrow> world \<Rightarrow> completion \<times> world" where
  \<comment> \<open>the call run to its end, nothing else touching the page meanwhile\<close>
  "loadAppliedJobs env w =
     (case loadAppliedJobs_begin w of
        (None, w') \<Rightarrow> (Normal, w')
      | (Some container, w') \<Rightarrow> loadAppliedJobs_resume env container w')"

subsection \<open>updateKPIs\<close>

definition statsUrl :: string where
  "statsUrl = ''/api/jobseeker/stats''"

definition kpiMap :: "jsval \<Rightarrow> jsval \<Rightarrow> jsval \<Rightarrow> jsval \<Rightarrow> (string \<times> jsval) list" where
  "kpiMap tot pen acc rej =
     [(''kpiTotalApplications'', orElse tot (Num 0)),
      (''kpiPendingApplications'', orElse pen (Num 0)),
      (''kpiAcceptedApplications'', orElse acc (Num 0)),
      (''kpiRejectedApplications'', orElse rej (Num 0))]"

text \<open>
  \<^verbatim>\<open>Object.keys(kpiMap).forEach\<close>: the keys in the order written. An element that is there
  gets the text of its value; a value without a text ends the loop by an exception, the
  earlier writes staying.
\<close>

fun forEachId :: "(string \<times> jsval) list \<Rightarrow> string list \<Rightarrow> world \<Rightarrow> completion \<times> world" where
  "forEachId m [] w = (Normal, w)"
| "forEachId m (i # ids) w =
     (case getElementById w i of
        None \<Rightarrow> forEachId m ids w
      | Some el \<Rightarrow>
          (case toString (getOwnOrInherited m i) of
             Inl e \<Rightarrow> (Abrupt e, w)
           | Inr t \<Rightarrow> forEachId m ids (setTextContent el t w)))"

definition updateKPIs_begin :: "world \<Rightarrow> world" where
  "updateKPIs_begin w = fetch statsUrl w"

definition updateKPIs_try :: "env \<Rightarrow> world \<Rightarrow> completion \<times> world" where
  "updateKPIs_try env w =
     (case andThen (fetchedJson env statsUrl) (\<lambda>stats.
             andThen (get stats ''total'') (\<lambda>tot.
             andThen (get stats ''pending'') (\<lambda>pen.
             andThen (get stats ''accepted'') (\<lambda>acc.
             andThen (get stats ''rejected'') (\<lambda>rej.
             Inr (kpiMap tot pen acc rej)))))) of
        Inl e \<Rightarrow> (Abrupt e, w)
      | Inr m \<Rightarrow> forEachId m (map fst m) w)"

definition updateKPIs_resume :: "env \<Rightarrow> world \<Rightarrow> completion \<times> world" where
  "updateKPIs_resume env w =
     (case updateKPIs_try env w of
        (Normal, w') \<Rightarrow> (Normal, w')
      | (Abrupt e, w') \<Rightarrow> (Normal, emit (ConsoleWarn ''Could not update KPIs'') w'))"

definition updateKPIs :: "env \<Rightarrow> world \<Rightarrow> completion \<times> world" where
  "updateKPIs env w = updateKPIs_resume env (updateKPIs_begin w)"

subsection \<open>loadDashboardData\<close>

text \<open>
  The object has no method \<^verbatim>\<open>loadNotifications\<close>. Code outside the file may add one; of such
  a method the model keeps only how its call ends: it throws, or it returns a promise
  (or a plain value, which counts as fulfilled) with a given fate.
\<close>

datatype collaborator = Throws | Returns completion

text \<open>
  \<^verbatim>\<open>await Promise.all([p1, p2, p3])\<close>. The three members are still waiting or already
  fulfilled; they settle in the order of the list \<open>order\<close>, each running its continuation
  on the page as it then is. The whole rejects with the first member that rejects and
  fulfils once none is waiting; when the list ends before that, it never settles, which is
  the result \<open>None\<close>.
\<close>

datatype member = AppliedJobs | Notifications | KPIs

record waiting =
  jobs :: "nat option"            \<comment> \<open>the container \<^verbatim>\<open>loadAppliedJobs\<close> will write to\<close>
  notifications :: "completion option"   \<comment> \<open>how the collaborator's promise will settle\<close>
  kpis :: bool

definition settled :: "waiting \<Rightarrow> bool" where
  "settled p = (jobs p = None \<and> notifications p = None \<and> \<not> kpis p)"

fun awaitAll :: "env \<Rightarrow> waiting \<Rightarrow> member list \<Rightarrow> world \<Rightarrow> (completion \<times> world) option" where
  "awaitAll env p [] w = (if settled p then Some (Normal, w) else None)"
| "awaitAll env p (m # ms) w =
     (if settled p then Some (Normal, w)
      else (case m of
          AppliedJobs \<Rightarrow>
            (case jobs p of
               None \<Rightarrow> awaitAll env p ms w
             | Some container \<Rightarrow>
                 (case loadAppliedJobs_resume env container w of
                    (Normal, w') \<Rightarrow> awaitAll env (p\<lparr>jobs := None\<rparr>) ms w'
                  | (Abrupt e, w') \<Rightarrow> Some (Abrupt e, w')))
        | Notifications \<Rightarrow>
            (case notifications p of
               None \<Rightarrow> awaitAll env p ms w
             | Some Normal \<Rightarrow> awaitAll env (p\<lparr>notifications := None\<rparr>) ms w
             | Some (Abrupt e) \<Rightarrow> Some (Abrupt e, w))
        | KPIs \<Rightarrow>
            (if kpis p then
               (case updateKPIs_resume env w of
                  (Normal, w') \<Rightarrow> awaitAll env (p\<lparr>kpis := False\<rparr>) ms w'
                | (Abrupt e, w') \<Rightarrow> Some (Abrupt e, w'))
             else awaitAll env p ms w)))"

text \<open>
  The \<^verbatim>\<open>try\<close> block: the array elements are evaluated left to right, so the request for the
  applications is out before \<^verbatim>\<open>this.loadNotifications()\<close> is evaluated, and \<^verbatim>\<open>updateKPIs\<close> is
  called only if that evaluation returns.
\<close>

definition loadDashboardData_try ::
  "env \<Rightarrow> collaborator option \<Rightarrow> member list \<Rightarrow> world \<Rightarrow> (completion \<times> world) option" where
  "loadDashboardData_try env loadNotifications order w =
     (case loadAppliedJobs_begin w of
        (p1, w1) \<Rightarrow>
          (case loadNotifications of
             None \<Rightarrow> Some (Abrupt TypeError, w1)
           | Some Throws \<Rightarrow> Some (Abrupt Foreign, w1)
           | Some (Returns fate) \<Rightarrow>
               awaitAll env \<lparr>jobs = p1, notifications = Some fate, kpis = True\<rparr> order
                 (updateKPIs_begin w1)))"

definition loadDashboardData ::
  "env \<Rightarrow> collaborator option \<Rightarrow> member list \<Rightarrow> world \<Rightarrow> world option" where
  \<comment> \<open>the page when the call's own promise settles; \<open>None\<close> when it never does\<close>
  "loadDashboardData env loadNotifications order w =
     (case loadDashboardData_try env loadNotifications order (setLoading True w) of
        None \<Rightarrow> None
      | Some (Normal, w') \<Rightarrow> Some (setLoading False w')
      | Some (Abrupt e, w') \<Rightarrow>
          Some (setLoading False (emit (ConsoleError ''Dashboard data sync failed:'' e) w')))"

text \<open>Whether the page shows the loading state: the main container carries the class.\<close>

definition loading :: "world \<Rightarrow> bool" where
  "loading w =
     (case querySelector w ''dashboard-main'' of
        None \<Rightarrow> False
      | Some main \<Rightarrow> ''loading-fade'' \<in> set (classList (document w ! main)))"

definition contentOf :: "world \<Rightarrow> string \<Rightarrow> content option" where
  \<comment> \<open>what the element with this id holds, if there is one\<close>
  "contentOf w i = map_option (\<lambda>el. content (document w ! el)) (getElementById w i)"

text \<open>
  The effects on class lists, and the relation between a page and a later one when
  nothing between them touched an \<^verbatim>\<open>id\<close> or a class list.
\<close>

definition classEvent :: "event \<Rightarrow> bool" where
  "classEvent e = (case e of ClassAdd el c \<Rightarrow> True | ClassRemove el c \<Rightarrow> True | _ \<Rightarrow> False)"

definition keepsClasses :: "world \<Rightarrow> world \<Rightarrow> bool" where
  "keepsClasses w w' =
     (map elemId (document w') = map elemId (document w)
      \<and> map classList (document w') = map classList (document w)
      \<and> take (length (trace w)) (trace w') = trace w
      \<and> list_all (\<lambda>e. \<not> classEvent e) (drop (length (trace w)) (trace w')))"

subsection \<open>The records of the data model\<close>




definition countOf :: "(string \<times> json) list \<Rightarrow> string \<Rightarrow> int" where
  \<comment> \<open>the count a summary gives under a key, 0 when it gives none\<close>
  "countOf kvs k = (case map_of (rev kvs) k of Some (JNum n) \<Rightarrow> n | _ \<Rightarrow> 0)"

definition isSummary :: "(string \<times> json) list \<Rightarrow> bool" where
  "isSummary kvs = list_all (\<lambda>(k, v). case v of JNum n \<Rightarrow> True | _ \<Rightarrow> False) kvs"

definition counters :: "(string \<times> string) list" where
  \<comment> \<open>the four counter elements, each with the key of the summary it shows\<close>
  "counters =
     [(''kpiTotalApplications'', ''total''), (''kpiPendingApplications'', ''pending''),
      (''kpiAcceptedApplications'', ''accepted''), (''kpiRejectedApplications'', ''rejected'')]"

subsection \<open>Sample inputs\<close>

text \<open>
  A page with the main container, the table and two of the four counters; a server that
  is down; one that answers with a single application and with counts; and the same
  answers seen from a runtime five hours behind UTC.
\<close>

definition samplePage :: "element list" where
  "samplePage =
     [\<lparr>elemId = None, classList = [''dashboard-main''], content = Html []\<rparr>,
      \<lparr>elemId = Some ''appliedJobsTable'', classList = [], content = Html ''old''\<rparr>,
      \<lparr>elemId = Some ''kpiTotalApplications'', classList = [''kpi''], content = Text ''7''\<rparr>,
      \<lparr>elemId = Some ''kpiRejectedApplications'', classList = [''kpi''], content = Text ''1''\<rparr>]"

definition sampleWorld :: world where
  "sampleWorld = \<lparr>document = samplePage, trace = [], href = ''/jobseeker/dashboard''\<rparr>"

definition barePage :: world where
  "barePage = \<lparr>document = [], trace = [], href = ''/jobseeker/dashboard''\<rparr>"

definition sampleApplications :: "json list" where
  "sampleApplications =
     [JObj [(''id'', JNum 42), (''job_title'', JStr ''Engineer''), (''company'', JStr ''Acme''),
            (''status'', JStr ''Pending''), (''applied_date'', JStr ''2024-01-05'')]]"

definition sampleStats :: "(string \<times> json) list" where
  "sampleStats = [(''total'', JNum 3), (''pending'', JNum 0), (''accepted'', JNum 2)]"

definition offline :: env where
  "offline = \<lparr>serve = (\<lambda>url. Failed), parseOther = (\<lambda>s. None), utcOffset = (\<lambda>t. 0)\<rparr>"

definition online :: env where
  "online =
     \<lparr>serve = (\<lambda>url. if url = applicationsUrl then Body (JArr sampleApplications)
                      else if url = statsUrl then Body (JObj sampleStats) else Failed),
      parseOther = (\<lambda>s. None), utcOffset = (\<lambda>t. 0)\<rparr>"


definition nullStatus :: "json list" where
  \<comment> \<open>a good record followed by one whose status is \<^verbatim>\<open>null\<close>\<close>
  "nullStatus =
     sampleApplications @
     [JObj [(''id'', JNum 43), (''job_title'', JStr ''Analyst''), (''company'', JStr ''Initech''),
            (''status'', JNull), (''applied_date'', JStr ''2024-02-01'')]]"

definition onlineNullStatus :: env where
  "onlineNullStatus = online\<lparr>serve := (\<lambda>url. Body (JArr nullStatus))\<rparr>"

definition onlineEmpty :: env where
  "onlineEmpty = online\<lparr>serve := (\<lambda>url. Body (JArr []))\<rparr>"

section \<open>Properties\<close>

subsection \<open>Elements and effects\<close>

lemma andThen_Inl [simp]: "andThen (Inl e) f = Inl e"
  and andThen_Inr [simp]: "andThen (Inr x) f = f x"
  by (simp_all add: andThen_def)

lemma findIndex_cong: "map P xs = map Q ys \<Longrightarrow> findIndex P xs = findIndex Q ys"
proof (induction xs arbitrary: ys)
  case Nil
  then show ?case by simp
next
  case (Cons x xs)
  then obtain y ys' where "ys = y # ys'" by (cases ys) auto
  with Cons show ?case by auto
qed

lemma findIndex_Some: "findIndex P xs = Some i \<Longrightarrow> i < length xs \<and> P (xs ! i)"
proof (induction xs arbitrary: i)
  case Nil
  then show ?case by simp
next
  case (Cons x xs)
  then show ?case by (cases "P x") (auto split: if_splits)
qed

lemma map_update_same: "f y = f (xs ! i) \<Longrightarrow> map f (xs[i := y]) = map f xs"
proof (cases "i < length xs")
  case True
  assume "f y = f (xs ! i)"
  with True show ?thesis by (simp add: map_update list_update_same_conv)
next
  case False
  then show ?thesis by (simp add: not_less list_update_beyond)
qed

lemma document_emit [simp]: "document (emit e w) = document w"
  and trace_emit [simp]: "trace (emit e w) = trace w @ [e]"
  and href_emit [simp]: "href (emit e w) = href w"
  by (simp_all add: emit_def)

lemma document_fetch [simp]: "document (fetch u w) = document w"
  and trace_fetch [simp]: "trace (fetch u w) = trace w @ [Fetch u]"
  and href_fetch [simp]: "href (fetch u w) = href w"
  by (simp_all add: fetch_def)

lemma getElementById_cong:
  assumes "map elemId (document w') = map elemId (document w)"
  shows "getElementById w' i = getElementById w i"
proof -
  have "map (\<lambda>e. elemId e = Some i) (document w')
      = map (\<lambda>v. v = Some i) (map elemId (document w'))"
    by simp
  also have "\<dots> = map (\<lambda>e. elemId e = Some i) (document w)"
    by (simp add: assms)
  finally show ?thesis
    unfolding getElementById_def by (rule findIndex_cong)
qed

lemma querySelector_cong:
  assumes "map classList (document w') = map classList (document w)"
  shows "querySelector w' c = querySelector w c"
proof -
  have "map (\<lambda>e. c \<in> set (classList e)) (document w')
      = map (\<lambda>cs. c \<in> set cs) (map classList (document w'))"
    by simp
  also have "\<dots> = map (\<lambda>e. c \<in> set (classList e)) (document w)"
    by (simp add: assms)
  finally show ?thesis
    unfolding querySelector_def by (rule findIndex_cong)
qed

lemma getElementById_Some:
  "getElementById w i = Some el \<Longrightarrow> el < length (document w) \<and> elemId (document w ! el) = Some i"
  unfolding getElementById_def by (drule findIndex_Some) simp

lemma querySelector_Some:
  "querySelector w c = Some el \<Longrightarrow> el < length (document w) \<and> c \<in> set (classList (document w ! el))"
  unfolding querySelector_def by (drule findIndex_Some) simp

text \<open>What an assignment to an element changes and what it leaves alone.\<close>

lemma setInnerHTML_frame [simp]:
  "map elemId (document (setInnerHTML el h w)) = map elemId (document w)"
  "map classList (document (setInnerHTML el h w)) = map classList (document w)"
  "length (document (setInnerHTML el h w)) = length (document w)"
  "trace (setInnerHTML el h w) = trace w @ [SetInnerHTML el h]"
  "href (setInnerHTML el h w) = href w"
  by (simp_all add: setInnerHTML_def map_update_same)

lemma setTextContent_frame [simp]:
  "map elemId (document (setTextContent el t w)) = map elemId (document w)"
  "map classList (document (setTextContent el t w)) = map classList (document w)"
  "length (document (setTextContent el t w)) = length (document w)"
  "trace (setTextContent el t w) = trace w @ [SetTextContent el t]"
  "href (setTextContent el t w) = href w"
  by (simp_all add: setTextContent_def map_update_same)

lemma content_setInnerHTML:
  "el < length (document w) \<Longrightarrow>
   content (document (setInnerHTML el h w) ! j) = (if j = el then Html h else content (document w ! j))"
  by (simp add: setInnerHTML_def nth_list_update)

lemma content_setTextContent:
  "el < length (document w) \<Longrightarrow>
   content (document (setTextContent el t w) ! j) = (if j = el then Text t else content (document w ! j))"
  by (simp add: setTextContent_def nth_list_update)

lemma getElementById_setInnerHTML [simp]:
  "getElementById (setInnerHTML el h w) i = getElementById w i"
  by (rule getElementById_cong) simp

lemma getElementById_setTextContent [simp]:
  "getElementById (setTextContent el t w) i = getElementById w i"
  by (rule getElementById_cong) simp

lemma getElementById_emit [simp]: "getElementById (emit e w) i = getElementById w i"
  by (rule getElementById_cong) simp

lemma getElementById_fetch [simp]: "getElementById (fetch u w) i = getElementById w i"
  by (rule getElementById_cong) simp

lemma contentOf_setInnerHTML:
  "getElementById w i = Some el \<Longrightarrow> contentOf (setInnerHTML el h w) i = Some (Html h)"
  by (simp add: contentOf_def content_setInnerHTML getElementById_Some)


subsection \<open>Lower case\<close>




subsection \<open>The badge of a status\<close>



text \<open>
  C1. The claim: every string other than the four keys, in any casing, gets the neutral
  badge. The code reads \<^verbatim>\<open>badges[statusLower]\<close> from an object literal, so a status that
  names an inherited property finds that property: for the status \<^verbatim>\<open>constructor\<close> the
  method returns the built-in function \<^verbatim>\<open>Object\<close>, not the neutral badge.
\<close>

theorem getStatusBadge_constructor:
  "getStatusBadge (Str ''constructor'') = Inr (Function ''Object'')
   \<and> getStatusBadge (Str ''constructor'') \<noteq> Inr (Str unknownBadge)"
  by (simp add: getStatusBadge_def toLowerCase_def lowerChar_def getOwnOrInherited_def
      badges_def objectPrototype_def orElse_def)

subsection \<open>Failing fetches\<close>

text \<open>
  C3. When the request for the statistics fails, or its body is not JSON, \<^verbatim>\<open>updateKPIs\<close>
  fulfils its promise and leaves the page as it was: every element, the four counters
  among them, holds what it held. The only effects are the request and the warning.
\<close>

theorem updateKPIs_failed_fetch:
  assumes "serve env statsUrl = Failed \<or> serve env statsUrl = Malformed"
  shows "fst (updateKPIs env w) = Normal
       \<and> document (snd (updateKPIs env w)) = document w
       \<and> (\<forall>i. contentOf (snd (updateKPIs env w)) i = contentOf w i)
       \<and> trace (snd (updateKPIs env w))
           = trace w @ [Fetch statsUrl, ConsoleWarn ''Could not update KPIs'']"
proof -
  from assms have "\<exists>e. fetchedJson env statsUrl = Inl e"
    by (auto simp: fetchedJson_def)
  then obtain e where "fetchedJson env statsUrl = Inl e" ..
  then have "updateKPIs env w
      = (Normal, emit (ConsoleWarn ''Could not update KPIs'') (fetch statsUrl w))"
    by (simp add: updateKPIs_def updateKPIs_resume_def updateKPIs_try_def updateKPIs_begin_def)
  then show ?thesis
    by (simp add: contentOf_def)
qed

theorem updateKPIs_failed_fetch_witness:
  "(serve offline statsUrl = Failed \<or> serve offline statsUrl = Malformed)
   \<and> fst (updateKPIs offline sampleWorld) = Normal
   \<and> contentOf (snd (updateKPIs offline sampleWorld)) ''kpiTotalApplications'' = Some (Text ''7'')
   \<and> contentOf (snd (updateKPIs offline sampleWorld)) ''kpiRejectedApplications'' = Some (Text ''1'')
   \<and> contentOf (snd (updateKPIs offline sampleWorld)) ''kpiPendingApplications'' = None"
proof -
  have h: "serve offline statsUrl = Failed \<or> serve offline statsUrl = Malformed"
    by (simp add: offline_def)
  show ?thesis
    using h updateKPIs_failed_fetch [OF h, of sampleWorld]
    by (simp add: contentOf_def getElementById_def sampleWorld_def samplePage_def)
qed

text \<open>
  C4. When the request for the applications fails, or its body is not JSON, and the
  container is on the page, \<^verbatim>\<open>loadAppliedJobs\<close> fulfils its promise and the container holds
  the one error row, which spans the five columns.
\<close>

theorem loadAppliedJobs_failed_fetch:
  assumes "getElementById w ''appliedJobsTable'' \<noteq> None"
    and "serve env applicationsUrl = Failed \<or> serve env applicationsUrl = Malformed"
  shows \<open>fst (loadAppliedJobs env w) = Normal
       \<and> contentOf (snd (loadAppliedJobs env w)) ''appliedJobsTable''
           = Some (Html ''<tr><td colspan="5" class="error-text">Failed to load applications.</td></tr>'')\<close>
proof -
  from assms(1) obtain c where c: "getElementById w ''appliedJobsTable'' = Some c" by auto
  from assms(2) have "\<exists>e. fetchedJson env applicationsUrl = Inl e"
    by (auto simp: fetchedJson_def)
  then obtain e where "fetchedJson env applicationsUrl = Inl e" ..
  with c have "loadAppliedJobs env w = (Normal, setInnerHTML c errorRow (fetch applicationsUrl w))"
    by (simp add: loadAppliedJobs_def loadAppliedJobs_begin_def loadAppliedJobs_resume_def
        loadAppliedJobs_try_def)
  with c show ?thesis
    by (simp add: contentOf_setInnerHTML errorRow_def)
qed

theorem loadAppliedJobs_failed_fetch_witness:
  \<open>getElementById sampleWorld ''appliedJobsTable'' \<noteq> None
   \<and> (serve offline applicationsUrl = Failed \<or> serve offline applicationsUrl = Malformed)
   \<and> fst (loadAppliedJobs offline sampleWorld) = Normal
   \<and> contentOf (snd (loadAppliedJobs offline sampleWorld)) ''appliedJobsTable''
       = Some (Html ''<tr><td colspan="5" class="error-text">Failed to load applications.</td></tr>'')\<close>
proof -
  have h1: "getElementById sampleWorld ''appliedJobsTable'' \<noteq> None"
    by (simp add: getElementById_def sampleWorld_def samplePage_def)
  have h2: "serve offline applicationsUrl = Failed \<or> serve offline applicationsUrl = Malformed"
    by (simp add: offline_def)
  show ?thesis
    using h1 h2 loadAppliedJobs_failed_fetch [OF h1 h2] by simp
qed

subsection \<open>The table of applications\<close>







lemma mapRows_throws:
  "x \<in> set xs \<Longrightarrow> f x = Inl e \<Longrightarrow> \<exists>e'. mapRows f xs = Inl e'"
proof (induction xs)
  case Nil
  then show ?case by simp
next
  case (Cons y ys)
  show ?case
  proof (cases "f y")
    case (Inl a)
    then show ?thesis by simp
  next
    case (Inr r)
    with Cons have "x \<in> set ys" by auto
    with Cons obtain e' where "mapRows f ys = Inl e'" by auto
    with Inr show ?thesis by simp
  qed
qed

lemma getStatusBadge_not_string:
  "(\<And>s. v \<noteq> Str s) \<Longrightarrow> getStatusBadge v = Inl TypeError"
  by (auto simp: getStatusBadge_def split: jsval.splits json.splits)

lemma renderRow_throws:
  assumes "get app ''status'' = Inr v" and "\<And>s. v \<noteq> Str s"
  shows "\<exists>e. renderRow env app = Inl e"
proof -
  from assms(2) have "getStatusBadge v = Inl TypeError"
    by (rule getStatusBadge_not_string)
  with assms(1) show ?thesis
    by (auto simp: renderRow_def andThen_def split: sum.splits)
qed


lemma loadAppliedJobs_array:
  assumes "getElementById w ''appliedJobsTable'' = Some c"
    and "serve env applicationsUrl = Body (JArr apps)" and "apps \<noteq> []"
  shows "loadAppliedJobs env w =
     (Normal, case mapRows (renderRow env) apps of
                Inr rows \<Rightarrow> setInnerHTML c (concat rows) (fetch applicationsUrl w)
              | Inl e \<Rightarrow> setInnerHTML c errorRow (fetch applicationsUrl w))"
  using assms
  by (simp add: loadAppliedJobs_def loadAppliedJobs_begin_def loadAppliedJobs_resume_def
      loadAppliedJobs_try_def fetchedJson_def andThen_def split: sum.splits)

text \<open>
  C6. When the server answers with \<^verbatim>\<open>null\<close> or with an empty list and the container is on
  the page, the container holds exactly the empty-state markup: one cell spanning the
  five columns, with the clipboard icon (U+1F4CB, here its four UTF-8 bytes), the title
  \<^verbatim>\<open>No applications yet\<close> and the text \<^verbatim>\<open>Start browsing jobs to apply!\<close>.
\<close>

theorem loadAppliedJobs_empty:
  assumes "getElementById w ''appliedJobsTable'' \<noteq> None"
    and "serve env applicationsUrl = Body JNull \<or> serve env applicationsUrl = Body (JArr [])"
  shows \<open>fst (loadAppliedJobs env w) = Normal
       \<and> contentOf (snd (loadAppliedJobs env w)) ''appliedJobsTable''
           = Some (Html (''\<newline>      <tr>\<newline>        <td colspan="5" class="empty-state-cell">\<newline>          <div class="empty-state">\<newline>            <div class="empty-state-icon">''
               @ [CHR 0xF0, CHR 0x9F, CHR 0x93, CHR 0x8B]
               @ ''</div>\<newline>            <div class="empty-state-title">No applications yet</div>\<newline>            <div class="empty-state-text">Start browsing jobs to apply!</div>\<newline>          </div>\<newline>        </td>\<newline>      </tr>\<newline>    ''))\<close>
proof -
  from assms(1) obtain c where c: "getElementById w ''appliedJobsTable'' = Some c" by auto
  from assms(2) have "loadAppliedJobs_try env c (fetch applicationsUrl w)
      = Inr (renderEmptyState c clipboard ''No applications yet'' ''Start browsing jobs to apply!''
               (fetch applicationsUrl w))"
    by (auto simp: loadAppliedJobs_try_def fetchedJson_def)
  with c have "loadAppliedJobs env w
      = (Normal, renderEmptyState c clipboard ''No applications yet''
                   ''Start browsing jobs to apply!'' (fetch applicationsUrl w))"
    by (simp add: loadAppliedJobs_def loadAppliedJobs_begin_def loadAppliedJobs_resume_def)
  with c show ?thesis
    by (simp add: renderEmptyState_def contentOf_setInnerHTML emptyStateTemplate_def clipboard_def)
qed

theorem loadAppliedJobs_empty_witness:
  \<open>getElementById sampleWorld ''appliedJobsTable'' \<noteq> None
   \<and> (serve onlineEmpty applicationsUrl = Body JNull \<or> serve onlineEmpty applicationsUrl = Body (JArr []))
   \<and> fst (loadAppliedJobs onlineEmpty sampleWorld) = Normal
   \<and> contentOf (snd (loadAppliedJobs onlineEmpty sampleWorld)) ''appliedJobsTable''
       = Some (Html (''\<newline>      <tr>\<newline>        <td colspan="5" class="empty-state-cell">\<newline>          <div class="empty-state">\<newline>            <div class="empty-state-icon">''
               @ [CHR 0xF0, CHR 0x9F, CHR 0x93, CHR 0x8B]
               @ ''</div>\<newline>            <div class="empty-state-title">No applications yet</div>\<newline>            <div class="empty-state-text">Start browsing jobs to apply!</div>\<newline>          </div>\<newline>        </td>\<newline>      </tr>\<newline>    ''))\<close>
proof -
  have h1: "getElementById sampleWorld ''appliedJobsTable'' \<noteq> None"
    by (simp add: getElementById_def sampleWorld_def samplePage_def)
  have h2: "serve onlineEmpty applicationsUrl = Body JNull
      \<or> serve onlineEmpty applicationsUrl = Body (JArr [])"
    by (simp add: onlineEmpty_def)
  show ?thesis
    using h1 h2 loadAppliedJobs_empty [OF h1 h2] by simp
qed



text \<open>
  C10. \<^verbatim>\<open>getStatusBadge\<close> throws a TypeError on every value that is not a string. So when
  the server answers with a list in which some record has such a status (\<^verbatim>\<open>null\<close>, a
  number, or none at all, which reads as \<^verbatim>\<open>undefined\<close>), the \<^verbatim>\<open>map\<close> call throws, the
  \<^verbatim>\<open>catch\<close> block runs, and the container holds the error row instead of the table.
\<close>

theorem getStatusBadge_non_string:
  \<open>((\<forall>s. v \<noteq> Str s) \<longrightarrow> getStatusBadge v = Inl TypeError)
   \<and> (getElementById w ''appliedJobsTable'' \<noteq> None
        \<and> serve env applicationsUrl = Body (JArr apps) \<and> app \<in> set apps
        \<and> get app ''status'' = Inr v \<and> (\<forall>s. v \<noteq> Str s)
      \<longrightarrow> fst (loadAppliedJobs env w) = Normal
        \<and> contentOf (snd (loadAppliedJobs env w)) ''appliedJobsTable''
            = Some (Html ''<tr><td colspan="5" class="error-text">Failed to load applications.</td></tr>''))\<close>
proof (intro conjI impI)
  assume "\<forall>s. v \<noteq> Str s"
  then show "getStatusBadge v = Inl TypeError"
    by (simp add: getStatusBadge_not_string)
next
  assume a: "getElementById w ''appliedJobsTable'' \<noteq> None
      \<and> serve env applicationsUrl = Body (JArr apps) \<and> app \<in> set apps
      \<and> get app ''status'' = Inr v \<and> (\<forall>s. v \<noteq> Str s)"
  then obtain el where el: "getElementById w ''appliedJobsTable'' = Some el" by auto
  from a have "\<exists>e. renderRow env app = Inl e"
    by (intro renderRow_throws [where v = v]) simp_all
  with a obtain e where "mapRows (renderRow env) apps = Inl e"
    using mapRows_throws by blast
  moreover from a have "apps \<noteq> []" by auto
  ultimately have run: "loadAppliedJobs env w
      = (Normal, setInnerHTML el errorRow (fetch applicationsUrl w))"
    using el a by (simp add: loadAppliedJobs_array)
  from run show "fst (loadAppliedJobs env w) = Normal" by simp
  from run el show \<open>contentOf (snd (loadAppliedJobs env w)) ''appliedJobsTable''
      = Some (Html ''<tr><td colspan="5" class="error-text">Failed to load applications.</td></tr>'')\<close>
    by (simp add: contentOf_setInnerHTML errorRow_def)
qed


theorem getStatusBadge_non_string_witness:
  \<open>(\<forall>s. Val JNull \<noteq> Str s)
   \<and> getStatusBadge (Val JNull) = Inl TypeError
   \<and> getElementById sampleWorld ''appliedJobsTable'' \<noteq> None
   \<and> serve onlineNullStatus applicationsUrl = Body (JArr nullStatus)
   \<and> nullStatus ! 1 \<in> set nullStatus
   \<and> get (nullStatus ! 1) ''status'' = Inr (Val JNull)
   \<and> fst (loadAppliedJobs onlineNullStatus sampleWorld) = Normal
   \<and> contentOf (snd (loadAppliedJobs onlineNullStatus sampleWorld)) ''appliedJobsTable''
       = Some (Html ''<tr><td colspan="5" class="error-text">Failed to load applications.</td></tr>'')\<close>
proof -
  have h0: "\<forall>s. Val JNull \<noteq> Str s" by simp
  have h1: "getElementById sampleWorld ''appliedJobsTable'' \<noteq> None"
    by (simp add: getElementById_def sampleWorld_def samplePage_def)
  have h2: "serve onlineNullStatus applicationsUrl = Body (JArr nullStatus)"
    by (simp add: onlineNullStatus_def)
  have h3: "nullStatus ! 1 \<in> set nullStatus"
    by (simp add: nullStatus_def sampleApplications_def)
  have h4: "get (nullStatus ! 1) ''status'' = Inr (Val JNull)"
    by (simp add: nullStatus_def sampleApplications_def getOwnOrInherited_def)
  show ?thesis
    using h0 h1 h2 h3 h4
      getStatusBadge_non_string [of "Val JNull" sampleWorld onlineNullStatus nullStatus "nullStatus ! 1"]
    by simp
qed


subsection \<open>The counters and missing elements\<close>

lemma contentOf_setTextContent:
  assumes "getElementById w i = Some el"
  shows "contentOf (setTextContent el t w) j = (if j = i then Some (Text t) else contentOf w j)"
proof (cases "getElementById w j")
  case None
  with assms show ?thesis by (auto simp: contentOf_def)
next
  case (Some el')
  from assms have el: "el < length (document w)" "elemId (document w ! el) = Some i"
    by (simp_all add: getElementById_Some)
  from Some have "elemId (document w ! el') = Some j"
    by (simp add: getElementById_Some)
  with el(2) have "el' = el \<longleftrightarrow> j = i" using assms Some by auto
  with Some el(1) show ?thesis
    by (simp add: contentOf_def content_setTextContent)
qed

lemma forEachId_writes:
  assumes "distinct ids"
    and "\<And>i. i \<in> set ids \<Longrightarrow> toString (getOwnOrInherited m i) = Inr (t i)"
  shows "fst (forEachId m ids w) = Normal
       \<and> (\<forall>j. contentOf (snd (forEachId m ids w)) j
              = (if j \<in> set ids then map_option (\<lambda>c. Text (t j)) (contentOf w j) else contentOf w j))
       \<and> trace (snd (forEachId m ids w))
           = trace w @ concat (map (\<lambda>i. case getElementById w i of
                                           None \<Rightarrow> []
                                         | Some el \<Rightarrow> [SetTextContent el (t i)]) ids)"
  using assms
proof (induction ids arbitrary: w)
  case Nil
  then show ?case by simp
next
  case (Cons i ids)
  then have d: "distinct ids" "i \<notin> set ids"
    and t: "\<And>j. j \<in> set ids \<Longrightarrow> toString (getOwnOrInherited m j) = Inr (t j)"
    and ti: "toString (getOwnOrInherited m i) = Inr (t i)"
    by simp_all
  show ?case
  proof (cases "getElementById w i")
    case None
    then have "contentOf w i = None" by (simp add: contentOf_def)
    with None Cons.IH [OF d(1) t, of w] d(2) show ?thesis by auto
  next
    case (Some el)
    let ?w = "setTextContent el (t i) w"
    from Some have "contentOf w i \<noteq> None" by (simp add: contentOf_def)
    with Some ti Cons.IH [OF d(1) t, of ?w] d(2) show ?thesis
      by (auto simp: contentOf_setTextContent)
  qed
qed


lemma summary_value:
  assumes "isSummary kvs" and "objectPrototype k = Undefined"
  shows "orElse (getOwnOrInherited (map (\<lambda>(n, v). (n, Val v)) kvs) k) (Num 0) = Num (countOf kvs k)"
proof (cases "map_of (rev kvs) k")
  case None
  then have "map_of (rev (map (\<lambda>(n, v). (n, Val v)) kvs)) k = None"
    by (simp add: rev_map map_of_map)
  with None assms(2) show ?thesis
    by (simp add: getOwnOrInherited_def countOf_def orElse_def)
next
  case (Some v)
  then have "(k, v) \<in> set kvs"
    using map_of_SomeD by fastforce
  with assms(1) obtain n where "v = JNum n"
    by (auto simp: isSummary_def list_all_iff split: json.splits)
  moreover from Some have "map_of (rev (map (\<lambda>(n, v). (n, Val v)) kvs)) k = Some (Val v)"
    by (simp add: rev_map map_of_map)
  ultimately show ?thesis using Some
    by (simp add: getOwnOrInherited_def countOf_def orElse_def)
qed

lemma updateKPIs_summary:
  assumes "serve env statsUrl = Body (JObj kvs)" and "isSummary kvs"
  shows "updateKPIs env w =
     forEachId (map (\<lambda>(i, k). (i, Num (countOf kvs k))) counters) (map fst counters)
       (fetch statsUrl w)"
proof -
  have "updateKPIs_try env (fetch statsUrl w) =
     forEachId (map (\<lambda>(i, k). (i, Num (countOf kvs k))) counters) (map fst counters)
       (fetch statsUrl w)"
    using assms
    by (simp add: updateKPIs_try_def fetchedJson_def kpiMap_def counters_def summary_value
        objectPrototype_def objectPrototypeMethods_def)
  moreover have "fst (forEachId (map (\<lambda>(i, k). (i, Num (countOf kvs k))) counters)
      (map fst counters) (fetch statsUrl w)) = Normal"
    by (rule forEachId_writes [where t = "\<lambda>i. numberToString (countOf kvs (the (map_of counters i)))", THEN conjunct1])
      (auto simp: counters_def getOwnOrInherited_def)
  ultimately show ?thesis
    by (cases "forEachId (map (\<lambda>(i, k). (i, Num (countOf kvs k))) counters) (map fst counters)
          (fetch statsUrl w)")
      (simp add: updateKPIs_def updateKPIs_resume_def updateKPIs_begin_def)
qed

lemma loadAppliedJobs_fulfils: "fst (loadAppliedJobs env w) = Normal"
  by (simp add: loadAppliedJobs_def loadAppliedJobs_begin_def loadAppliedJobs_resume_def
      split: option.splits sum.splits)

lemma updateKPIs_fulfils: "fst (updateKPIs env w) = Normal"
  by (simp add: updateKPIs_def updateKPIs_resume_def split: prod.splits completion.splits)

text \<open>
  C9. Every operation on the page tolerates a missing element. Without the container
  \<^verbatim>\<open>loadAppliedJobs\<close> returns at once: the world is unchanged, so no request went out.
  Without the main container \<^verbatim>\<open>setLoading\<close> changes nothing. \<^verbatim>\<open>updateKPIs\<close> always fulfils its
  promise, and on a summary of counts it writes each counter that is on the page and
  passes over each that is not: the only effects after the request are the writes to the
  counters that exist.
\<close>

theorem absent_elements_tolerated:
  "(getElementById w ''appliedJobsTable'' = None \<longrightarrow> loadAppliedJobs env w = (Normal, w))
   \<and> (querySelector w ''dashboard-main'' = None \<longrightarrow> setLoading isLoading w = w)
   \<and> fst (updateKPIs env w) = Normal
   \<and> (serve env statsUrl = Body (JObj kvs) \<and> isSummary kvs \<longrightarrow>
        (\<forall>(i, k) \<in> set counters.
           contentOf (snd (updateKPIs env w)) i
             = map_option (\<lambda>c. Text (numberToString (countOf kvs k))) (contentOf w i))
        \<and> trace (snd (updateKPIs env w))
            = trace w @ Fetch statsUrl #
                concat (map (\<lambda>(i, k). case getElementById w i of
                                          None \<Rightarrow> []
                                        | Some el \<Rightarrow> [SetTextContent el (numberToString (countOf kvs k))])
                          counters))"
proof (intro conjI impI)
  assume "getElementById w ''appliedJobsTable'' = None"
  then show "loadAppliedJobs env w = (Normal, w)"
    by (simp add: loadAppliedJobs_def loadAppliedJobs_begin_def)
next
  assume "querySelector w ''dashboard-main'' = None"
  then show "setLoading isLoading w = w"
    by (simp add: setLoading_def)
next
  show "fst (updateKPIs env w) = Normal"
    by (rule updateKPIs_fulfils)
next
  assume a: "serve env statsUrl = Body (JObj kvs) \<and> isSummary kvs"
  let ?t = "\<lambda>i. numberToString (countOf kvs (the (map_of counters i)))"
  let ?m = "map (\<lambda>(i, k). (i, Num (countOf kvs k))) counters"
  have run: "updateKPIs env w = forEachId ?m (map fst counters) (fetch statsUrl w)"
    using a by (simp add: updateKPIs_summary)
  have w: "fst (forEachId ?m (map fst counters) (fetch statsUrl w)) = Normal
       \<and> (\<forall>j. contentOf (snd (forEachId ?m (map fst counters) (fetch statsUrl w))) j
              = (if j \<in> set (map fst counters)
                 then map_option (\<lambda>c. Text (?t j)) (contentOf (fetch statsUrl w) j)
                 else contentOf (fetch statsUrl w) j))
       \<and> trace (snd (forEachId ?m (map fst counters) (fetch statsUrl w)))
           = trace (fetch statsUrl w) @
               concat (map (\<lambda>i. case getElementById (fetch statsUrl w) i of
                                   None \<Rightarrow> []
                                 | Some el \<Rightarrow> [SetTextContent el (?t i)]) (map fst counters))"
    by (rule forEachId_writes) (auto simp: counters_def getOwnOrInherited_def)
  have c: "contentOf (fetch statsUrl w) j = contentOf w j" for j
    by (simp add: contentOf_def)
  from w run c show "\<forall>(i, k) \<in> set counters.
      contentOf (snd (updateKPIs env w)) i
        = map_option (\<lambda>c. Text (numberToString (countOf kvs k))) (contentOf w i)"
    by (simp add: counters_def)
  from w run show "trace (snd (updateKPIs env w))
      = trace w @ Fetch statsUrl #
          concat (map (\<lambda>(i, k). case getElementById w i of
                                    None \<Rightarrow> []
                                  | Some el \<Rightarrow> [SetTextContent el (numberToString (countOf kvs k))])
                    counters)"
    by (simp add: counters_def cong: option.case_cong)
qed

theorem absent_elements_tolerated_witness:
  "getElementById barePage ''appliedJobsTable'' = None
   \<and> loadAppliedJobs online barePage = (Normal, barePage)
   \<and> querySelector barePage ''dashboard-main'' = None
   \<and> setLoading True barePage = barePage
   \<and> serve online statsUrl = Body (JObj sampleStats) \<and> isSummary sampleStats
   \<and> fst (updateKPIs online sampleWorld) = Normal
   \<and> contentOf (snd (updateKPIs online sampleWorld)) ''kpiTotalApplications'' = Some (Text ''3'')
   \<and> contentOf (snd (updateKPIs online sampleWorld)) ''kpiPendingApplications'' = None
   \<and> contentOf (snd (updateKPIs online sampleWorld)) ''kpiAcceptedApplications'' = None
   \<and> contentOf (snd (updateKPIs online sampleWorld)) ''kpiRejectedApplications'' = Some (Text ''0'')
   \<and> trace (snd (updateKPIs online sampleWorld))
       = [Fetch statsUrl, SetTextContent 2 ''3'', SetTextContent 3 ''0'']"
proof -
  have h1: "getElementById barePage ''appliedJobsTable'' = None"
    by (simp add: getElementById_def barePage_def)
  have h2: "querySelector barePage ''dashboard-main'' = None"
    by (simp add: querySelector_def barePage_def)
  have h3: "serve online statsUrl = Body (JObj sampleStats) \<and> isSummary sampleStats"
    by (simp add: online_def statsUrl_def applicationsUrl_def isSummary_def sampleStats_def)
  note bare = absent_elements_tolerated [of barePage online True sampleStats]
  note page = absent_elements_tolerated [of sampleWorld online True sampleStats]
  from bare h1 have c1: "loadAppliedJobs online barePage = (Normal, barePage)" by blast
  from bare h2 have c2: "setLoading True barePage = barePage" by blast
  from page have c3: "fst (updateKPIs online sampleWorld) = Normal" by blast
  from page h3 have c4: "\<forall>(i, k) \<in> set counters.
      contentOf (snd (updateKPIs online sampleWorld)) i
        = map_option (\<lambda>c. Text (numberToString (countOf sampleStats k))) (contentOf sampleWorld i)"
    by blast
  have n: "numberToString (countOf sampleStats ''total'') = ''3''"
    "numberToString (countOf sampleStats ''rejected'') = ''0''"
    by code_simp+
  have s: "contentOf sampleWorld ''kpiTotalApplications'' = Some (Text ''7'')"
    "contentOf sampleWorld ''kpiPendingApplications'' = None"
    "contentOf sampleWorld ''kpiAcceptedApplications'' = None"
    "contentOf sampleWorld ''kpiRejectedApplications'' = Some (Text ''1'')"
    by (simp_all add: contentOf_def getElementById_def sampleWorld_def samplePage_def)
  from c4 n s have c5:
    "contentOf (snd (updateKPIs online sampleWorld)) ''kpiTotalApplications'' = Some (Text ''3'')"
    "contentOf (snd (updateKPIs online sampleWorld)) ''kpiPendingApplications'' = None"
    "contentOf (snd (updateKPIs online sampleWorld)) ''kpiAcceptedApplications'' = None"
    "contentOf (snd (updateKPIs online sampleWorld)) ''kpiRejectedApplications'' = Some (Text ''0'')"
    by (simp_all add: counters_def)
  have c6: "trace (snd (updateKPIs online sampleWorld))
      = [Fetch statsUrl, SetTextContent 2 ''3'', SetTextContent 3 ''0'']"
    by code_simp
  from h1 h2 h3 c1 c2 c3 c5 c6 show ?thesis by simp
qed

subsection \<open>Calls always fulfil\<close>



subsection \<open>Steps that leave the class lists alone\<close>

lemma keepsClasses_iff:
  "keepsClasses w w' \<longleftrightarrow>
     map elemId (document w') = map elemId (document w)
   \<and> map classList (document w') = map classList (document w)
   \<and> (\<exists>evs. trace w' = trace w @ evs \<and> list_all (\<lambda>e. \<not> classEvent e) evs)"
proof
  assume k: "keepsClasses w w'"
  then have "trace w' = trace w @ drop (length (trace w)) (trace w')"
    by (metis keepsClasses_def append_take_drop_id)
  with k show "map elemId (document w') = map elemId (document w)
      \<and> map classList (document w') = map classList (document w)
      \<and> (\<exists>evs. trace w' = trace w @ evs \<and> list_all (\<lambda>e. \<not> classEvent e) evs)"
    unfolding keepsClasses_def by blast
next
  assume "map elemId (document w') = map elemId (document w)
      \<and> map classList (document w') = map classList (document w)
      \<and> (\<exists>evs. trace w' = trace w @ evs \<and> list_all (\<lambda>e. \<not> classEvent e) evs)"
  then show "keepsClasses w w'"
    by (auto simp: keepsClasses_def)
qed

lemma keepsClasses_refl [simp]: "keepsClasses w w"
  by (simp add: keepsClasses_def)

lemma keepsClasses_trans: "keepsClasses a b \<Longrightarrow> keepsClasses b c \<Longrightarrow> keepsClasses a c"
  unfolding keepsClasses_iff by auto

lemma keepsClasses_emit: "\<not> classEvent e \<Longrightarrow> keepsClasses w (emit e w)"
  by (simp add: keepsClasses_iff)

lemma keepsClasses_fetch [simp]: "keepsClasses w (fetch u w)"
  by (simp add: fetch_def keepsClasses_emit classEvent_def)

lemma keepsClasses_setInnerHTML [simp]: "keepsClasses w (setInnerHTML el h w)"
  by (simp add: keepsClasses_iff classEvent_def)

lemma keepsClasses_setTextContent [simp]: "keepsClasses w (setTextContent el t w)"
  by (simp add: keepsClasses_iff classEvent_def)




lemma keepsClasses_loadAppliedJobs_begin: "keepsClasses w (snd (loadAppliedJobs_begin w))"
  by (simp add: loadAppliedJobs_begin_def split: option.splits)




subsection \<open>setLoading\<close>

lemma classListAdd_frame [simp]:
  "map elemId (document (classListAdd el c w)) = map elemId (document w)"
  "map content (document (classListAdd el c w)) = map content (document w)"
  "trace (classListAdd el c w) = trace w @ [ClassAdd el c]"
  "href (classListAdd el c w) = href w"
  by (simp_all add: classListAdd_def Let_def map_update_same)

lemma classListRemove_frame [simp]:
  "map elemId (document (classListRemove el c w)) = map elemId (document w)"
  "map content (document (classListRemove el c w)) = map content (document w)"
  "trace (classListRemove el c w) = trace w @ [ClassRemove el c]"
  "href (classListRemove el c w) = href w"
  by (simp_all add: classListRemove_def Let_def map_update_same)

lemma querySelector_classListAdd:
  assumes "c \<noteq> d"
  shows "querySelector (classListAdd el c w) d = querySelector w d"
proof -
  from assms have "map (\<lambda>e. d \<in> set (classList e)) (document (classListAdd el c w))
      = map (\<lambda>e. d \<in> set (classList e)) (document w)"
    by (simp add: classListAdd_def Let_def map_update_same)
  then show ?thesis
    unfolding querySelector_def by (rule findIndex_cong)
qed

lemma querySelector_classListRemove:
  assumes "c \<noteq> d"
  shows "querySelector (classListRemove el c w) d = querySelector w d"
proof -
  from assms have "map (\<lambda>e. d \<in> set (classList e)) (document (classListRemove el c w))
      = map (\<lambda>e. d \<in> set (classList e)) (document w)"
    by (simp add: classListRemove_def Let_def map_update_same)
  then show ?thesis
    unfolding querySelector_def by (rule findIndex_cong)
qed

lemma querySelector_setLoading [simp]:
  "querySelector (setLoading b w) ''dashboard-main'' = querySelector w ''dashboard-main''"
  by (simp add: setLoading_def querySelector_classListAdd querySelector_classListRemove
      split: option.splits)

lemma getElementById_setLoading [simp]: "getElementById (setLoading b w) i = getElementById w i"
  by (rule getElementById_cong) (simp add: setLoading_def split: option.splits)

lemma content_setLoading [simp]:
  "map content (document (setLoading b w)) = map content (document w)"
  by (simp add: setLoading_def split: option.splits)

lemma trace_setLoading:
  "trace (setLoading b w) = trace w @
     (case querySelector w ''dashboard-main'' of
        None \<Rightarrow> []
      | Some main \<Rightarrow> [if b then ClassAdd main ''loading-fade'' else ClassRemove main ''loading-fade''])"
  by (simp add: setLoading_def split: option.splits)

lemma not_loading_setLoading_False: "\<not> loading (setLoading False w)"
proof (cases "querySelector w ''dashboard-main''")
  case None
  then show ?thesis by (simp add: loading_def)
next
  case (Some main)
  then have "main < length (document w)" by (simp add: querySelector_Some)
  then have "''loading-fade'' \<notin> set (classList (document (classListRemove main ''loading-fade'' w) ! main))"
    by (simp add: classListRemove_def Let_def)
  moreover have "querySelector (setLoading False w) ''dashboard-main'' = Some main"
    using Some by simp
  ultimately show ?thesis using Some
    by (simp add: loading_def setLoading_def)
qed


subsection \<open>The loader\<close>


text \<open>
  C2. With no \<^verbatim>\<open>loadNotifications\<close> on the object, every call of \<^verbatim>\<open>loadDashboardData\<close>, whatever
  the server answers and whatever is on the page, ends the same way: the loading class is
  added, the request for the applications goes out (if the container is there), the
  building of the array throws a TypeError, the \<^verbatim>\<open>catch\<close> block logs it under
  \<^verbatim>\<open>Dashboard data sync failed:\<close>, and the \<^verbatim>\<open>finally\<close> block removes the loading class.
  \<^verbatim>\<open>updateKPIs\<close> is not called: no request for the statistics goes out and no element's
  content changes.
\<close>

theorem loadDashboardData_without_loadNotifications:
  "\<exists>w'. loadDashboardData env None order w = Some w'
     \<and> trace w' = trace w
         @ (case querySelector w ''dashboard-main'' of
              None \<Rightarrow> [] | Some main \<Rightarrow> [ClassAdd main ''loading-fade''])
         @ (case getElementById w ''appliedJobsTable'' of
              None \<Rightarrow> [] | Some container \<Rightarrow> [Fetch applicationsUrl])
         @ [ConsoleError ''Dashboard data sync failed:'' TypeError]
         @ (case querySelector w ''dashboard-main'' of
              None \<Rightarrow> [] | Some main \<Rightarrow> [ClassRemove main ''loading-fade''])
     \<and> Fetch statsUrl \<notin> set (drop (length (trace w)) (trace w'))
     \<and> map content (document w') = map content (document w)
     \<and> \<not> loading w'"
proof -
  let ?w1 = "setLoading True w"
  let ?w2 = "snd (loadAppliedJobs_begin ?w1)"
  let ?w3 = "emit (ConsoleError ''Dashboard data sync failed:'' TypeError) ?w2"
  have run: "loadDashboardData env None order w = Some (setLoading False ?w3)"
    by (simp add: loadDashboardData_def loadDashboardData_try_def split: prod.splits)
  have k: "keepsClasses ?w1 ?w3"
    using keepsClasses_loadAppliedJobs_begin [of ?w1]
    by (rule keepsClasses_trans) (simp add: keepsClasses_emit classEvent_def)
  then have q: "querySelector ?w3 ''dashboard-main'' = querySelector w ''dashboard-main''"
    using querySelector_cong [of ?w3 ?w1] by (simp add: keepsClasses_def)
  have t2: "trace ?w2 = trace ?w1 @
      (case getElementById w ''appliedJobsTable'' of None \<Rightarrow> [] | Some container \<Rightarrow> [Fetch applicationsUrl])"
    by (simp add: loadAppliedJobs_begin_def split: option.splits)
  have t: "trace (setLoading False ?w3) = trace w
         @ (case querySelector w ''dashboard-main'' of
              None \<Rightarrow> [] | Some main \<Rightarrow> [ClassAdd main ''loading-fade''])
         @ (case getElementById w ''appliedJobsTable'' of
              None \<Rightarrow> [] | Some container \<Rightarrow> [Fetch applicationsUrl])
         @ [ConsoleError ''Dashboard data sync failed:'' TypeError]
         @ (case querySelector w ''dashboard-main'' of
              None \<Rightarrow> [] | Some main \<Rightarrow> [ClassRemove main ''loading-fade''])"
    by (simp add: trace_setLoading q t2 split: option.splits)
  have c: "map content (document (setLoading False ?w3)) = map content (document w)"
    by (simp add: loadAppliedJobs_begin_def split: option.splits)
  have "Fetch statsUrl \<notin> set (drop (length (trace w)) (trace (setLoading False ?w3)))"
    unfolding t by (simp add: statsUrl_def applicationsUrl_def split: option.splits)
  with run t c not_loading_setLoading_False [of ?w3] show ?thesis
    by blast
qed

theorem loadDashboardData_without_loadNotifications_witness:
  "\<exists>w'. loadDashboardData online None [] sampleWorld = Some w'
     \<and> trace w' = [ClassAdd 0 ''loading-fade'', Fetch applicationsUrl,
                    ConsoleError ''Dashboard data sync failed:'' TypeError,
                    ClassRemove 0 ''loading-fade'']
     \<and> \<not> loading w'"
proof -
  have q: "querySelector sampleWorld ''dashboard-main'' = Some 0"
    by (simp add: querySelector_def sampleWorld_def samplePage_def)
  have g: "getElementById sampleWorld ''appliedJobsTable'' = Some 1"
    by (simp add: getElementById_def sampleWorld_def samplePage_def)
  have t: "trace sampleWorld = []"
    by (simp add: sampleWorld_def)
  from loadDashboardData_without_loadNotifications [of online "[]" sampleWorld]
  have "\<exists>w'. loadDashboardData online None [] sampleWorld = Some w'
     \<and> trace w' = [ClassAdd 0 ''loading-fade'', Fetch applicationsUrl,
                    ConsoleError ''Dashboard data sync failed:'' TypeError,
                    ClassRemove 0 ''loading-fade'']
     \<and> Fetch statsUrl \<notin> set (trace w')
     \<and> map content (document w') = map content (document sampleWorld)
     \<and> \<not> loading w'"
    by (simp add: q g t)
  then show ?thesis by blast
qed





subsection \<open>The date of an application\<close>







end
